theory Spec2Isabelle
  imports Main
begin

section \<open>Shared Python values\<close>

text \<open>
  The library is Python. Exceptions become values of \<open>py_error\<close> and a fallible
  function returns \<open>py_error + 'a\<close> (\<open>Inl\<close> the exception). JSON payloads decoded by
  \<open>json.loads\<close> become \<open>json\<close>; a decoded JSON object is a Python dict, written as an
  association list that is read with \<open>map_of\<close>.
\<close>

datatype py_error =
    KeyError | ValueError | LookupError | TypeError | IndexError | RuntimeError
  | TimeoutError | CommandSetupError | UnicodeDecodeError | JSONDecodeError

datatype json =
    JNull | JBool bool | JInt int | JStr string
  | JList "json list" | JObj "(string \<times> json) list"

type_synonym py_dict = "(string \<times> json) list"

text \<open>\<open>data[key]\<close>: raises KeyError when the key is missing.\<close>

definition dict_item :: "py_dict \<Rightarrow> string \<Rightarrow> py_error + json" where
  "dict_item data k = (case map_of data k of None \<Rightarrow> Inl KeyError | Some v \<Rightarrow> Inr v)"

text \<open>\<open>data.get(key)\<close>: None (here \<open>JNull\<close>) when the key is missing.\<close>

definition dict_get :: "py_dict \<Rightarrow> string \<Rightarrow> json" where
  "dict_get data k = (case map_of data k of None \<Rightarrow> JNull | Some v \<Rightarrow> v)"

text \<open>
  An attribute of a class with \<open>__slots__\<close>: it does not exist until the first
  assignment, and reading it before that raises AttributeError.
\<close>

datatype 'a slot = Unset | Assigned 'a

section \<open>Interaction data model (wumpy/interactions/base.py)\<close>

subsection \<open>SelectInteractionValue\<close>

record SelectInteractionValue =
  siv_label :: "json slot"
  siv_value :: "json slot"
  siv_description :: "json slot"
  siv_emoji :: "json slot"
  siv_default :: "json slot"

definition SelectInteractionValue_new :: SelectInteractionValue where
  "SelectInteractionValue_new =
     \<lparr>siv_label = Unset, siv_value = Unset, siv_description = Unset,
      siv_emoji = Unset, siv_default = Unset\<rparr>"

text \<open>
  \<open>SelectInteractionValue.__init__\<close>, one assignment of the source per line. The
  last two lines of the source both assign \<open>self.emoji\<close>.
\<close>

definition SelectInteractionValue_init :: "py_dict \<Rightarrow> py_error + SelectInteractionValue" where
  "SelectInteractionValue_init data =
     (case dict_item data ''label'' of
        Inl e \<Rightarrow> Inl e
      | Inr l \<Rightarrow>
        (case dict_item data ''value'' of
           Inl e \<Rightarrow> Inl e
         | Inr v \<Rightarrow>
           (let self0 = SelectInteractionValue_new;
                self1 = self0\<lparr>siv_label := Assigned l\<rparr>;
                self2 = self1\<lparr>siv_value := Assigned v\<rparr>;
                self3 = self2\<lparr>siv_description := Assigned (dict_get data ''description'')\<rparr>;
                self4 = self3\<lparr>siv_emoji := Assigned (dict_get data ''emoji'')\<rparr>;
                self5 = self4\<lparr>siv_emoji := Assigned (dict_get data ''default'')\<rparr>
            in Inr self5)))"

subsection \<open>Interaction.respond\<close>

text \<open>
  Every parameter of \<open>respond\<close> defaults to the sentinel \<open>MISSING\<close>
  (wumpy.rest.utils, not under src/).
\<close>

datatype 'a param = MISSING | Given 'a

text \<open>
  Modelled from the spec: the truthiness of the Unset sentinel \<open>MISSING\<close>, whose class
  is not under src/. The spec calls it distinguishable from "another falsy value", so
  \<open>if ephemeral:\<close> and \<open>if allowed_mentions\<close> take the false branch on it. A given
  bool is truthy when it is True.
\<close>

fun truthy_bool :: "bool param \<Rightarrow> bool" where
  "truthy_bool MISSING = False"
| "truthy_bool (Given b) = b"

text \<open>
  \<open>AllowedMentions\<close> and \<open>ComponentList\<close> are classes of other packages: an object of
  either is given by its truthiness and by what \<open>data()\<close> / \<open>to_dict()\<close> returns.
  \<open>components\<close> may also be a plain list, which \<open>respond\<close> wraps with the
  \<open>ComponentList\<close> constructor (a parameter of the model).
\<close>

record py_object =
  obj_truthy :: bool
  obj_dict :: json

datatype 'c components_arg = PlainList "'c list" | ComponentListObj py_object

text \<open>
  A value of the outgoing \<open>data\<close> dict before \<open>json.dumps\<close>: the sentinel, a JSON
  value, or an object that \<open>json.dumps\<close> cannot serialise (a falsy AllowedMentions or
  ComponentList is stored as it is).
\<close>

datatype dict_value = VMissing | VJson json | VObject py_object

datatype asgi_message =
    ResponseStart nat "(string \<times> string) list"
  | ResponseBody string
  | ResponseJson json
  | LifespanMessage string

text \<open>\<open>{k: v for k, v in data.items() if v is not MISSING}\<close>\<close>

definition drop_missing :: "(string \<times> dict_value) list \<Rightarrow> (string \<times> dict_value) list" where
  "drop_missing data = filter (\<lambda>(k, v). v \<noteq> VMissing) data"

text \<open>
  \<open>json.dumps\<close> of the data dict: TypeError on a value that is not JSON. The
  encoded bytes are kept as the JSON value they encode (\<open>ResponseJson\<close>).
\<close>

fun dumps_items :: "(string \<times> dict_value) list \<Rightarrow> py_error + (string \<times> json) list" where
  "dumps_items [] = Inr []"
| "dumps_items ((k, VJson j) # rest) =
     (case dumps_items rest of Inl e \<Rightarrow> Inl e | Inr js \<Rightarrow> Inr ((k, j) # js))"
| "dumps_items ((k, _) # rest) = Inl TypeError"

fun param_value :: "('a \<Rightarrow> json) \<Rightarrow> 'a param \<Rightarrow> dict_value" where
  "param_value f MISSING = VMissing"
| "param_value f (Given x) = VJson (f x)"

text \<open>\<open>allowed_mentions.data() if allowed_mentions else allowed_mentions\<close>\<close>

fun allowed_mentions_value :: "py_object param \<Rightarrow> dict_value" where
  "allowed_mentions_value MISSING = VMissing"
| "allowed_mentions_value (Given am) = (if obj_truthy am then VJson (obj_dict am) else VObject am)"

text \<open>
  \<open>if isinstance(components, list): components = ComponentList(*components)\<close>, then
  \<open>components.to_dict() if components else components\<close>.
\<close>

fun components_value :: "('c list \<Rightarrow> py_object) \<Rightarrow> 'c components_arg param \<Rightarrow> dict_value" where
  "components_value mk MISSING = VMissing"
| "components_value mk (Given (PlainList cs)) =
     (let cl = mk cs in if obj_truthy cl then VJson (obj_dict cl) else VObject cl)"
| "components_value mk (Given (ComponentListObj cl)) =
     (if obj_truthy cl then VJson (obj_dict cl) else VObject cl)"

text \<open>
  \<open>Interaction.respond\<close>. The result is the list of messages passed to \<open>_send\<close>, in
  order, and the exception that ended the call, if any: the first message is sent
  before \<open>json.dumps\<close> runs.
\<close>

definition respond_data ::
  "('c list \<Rightarrow> py_object) \<Rightarrow> string param \<Rightarrow> bool param \<Rightarrow> json list param \<Rightarrow>
   py_object param \<Rightarrow> bool param \<Rightarrow> 'c components_arg param \<Rightarrow> (string \<times> dict_value) list" where
  "respond_data mk content tts embeds allowed_mentions ephemeral components =
     (let data = [(''content'', param_value JStr content),
                  (''tts'', param_value JBool tts),
                  (''embeds'', param_value JList embeds),
                  (''allowed_mentions'', allowed_mentions_value allowed_mentions),
                  (''components'', components_value mk components)];
          data = (if truthy_bool ephemeral then data @ [(''flags'', VJson (JInt (push_bit 6 1)))] else data)
      in drop_missing data)"

definition respond ::
  "('c list \<Rightarrow> py_object) \<Rightarrow> string param \<Rightarrow> bool param \<Rightarrow> json list param \<Rightarrow>
   py_object param \<Rightarrow> bool param \<Rightarrow> 'c components_arg param \<Rightarrow> asgi_message list \<times> py_error option" where
  "respond mk content tts embeds allowed_mentions ephemeral components =
     (let data = respond_data mk content tts embeds allowed_mentions ephemeral components;
          start = ResponseStart 200 [(''content-type'', ''application/json'')]
      in case dumps_items data of
           Inl e \<Rightarrow> ([start], Some e)
         | Inr js \<Rightarrow> ([start, ResponseJson (JObj [(''type'', JInt 4), (''data'', JObj js)])], None))"

subsection \<open>CommandInteractionOption\<close>

datatype ApplicationCommandOption =
    ACO_subcommand | ACO_subcommand_group | ACO_string | ACO_integer | ACO_boolean
  | ACO_user | ACO_channel | ACO_role | ACO_mentionable | ACO_number

text \<open>
  The fields \<open>name\<close>, \<open>type\<close>, \<open>value\<close> and \<open>options\<close>. \<open>value\<close> is
  \<open>data.get('value')\<close>, so it is \<open>JNull\<close> (None) when the payload has no value; the
  class's docstring says that value and options are mutually exclusive and that options
  are only sent for a subcommand or a subcommand group.
\<close>

datatype CommandInteractionOption =
  CommandInteractionOption
    (opt_name: string) (opt_type: ApplicationCommandOption)
    (opt_value: json) (opt_options: "CommandInteractionOption list")

section \<open>Slash commands (wumpy/interactions/commands/slash.py)\<close>

text \<open>
  A registered command is a leaf \<open>Command\<close> (given by its callback) or a
  \<open>SubcommandGroup\<close> with its \<open>commands\<close> dict (name to command).
\<close>

datatype 'cb command =
    Command 'cb
  | SubcommandGroup "(string \<times> 'cb command) list"

definition is_subcommand_option :: "CommandInteractionOption \<Rightarrow> bool" where
  "is_subcommand_option option =
     (opt_type option = ACO_subcommand \<or> opt_type option = ACO_subcommand_group)"

text \<open>
  \<open>self.commands.get(key)\<close> on a dict whose keys are all strings: a string key is
  looked up, None and numbers hash but equal no string, and a list or a dict is
  unhashable (TypeError).
\<close>

fun commands_get :: "(string \<times> 'a) list \<Rightarrow> json \<Rightarrow> py_error + 'a option" where
  "commands_get cmds (JStr s) = Inr (map_of cmds s)"
| "commands_get cmds (JList _) = Inl TypeError"
| "commands_get cmds (JObj _) = Inl TypeError"
| "commands_get cmds _ = Inr None"

text \<open>
  \<open>invoke\<close> of a command. For a leaf, \<open>Command._inner_call\<close> resolves the options and
  awaits the callback; \<open>OptionClass\<close> and the callback are not under src/, so the leaf's
  call is the parameter \<open>leaf\<close>, applied to the callback, the interaction and the options
  the leaf receives. For a group it is \<open>SubcommandGroup._inner_call\<close>. The middleware of
  \<open>CommandMiddlewareMixin.invoke\<close> is not under src/; with none registered \<open>invoke\<close>
  is \<open>_inner_call\<close>.
\<close>

function invoke ::
  "('cb \<Rightarrow> 'i \<Rightarrow> CommandInteractionOption list \<Rightarrow> py_error + 'r) \<Rightarrow> 'cb command \<Rightarrow> 'i \<Rightarrow>
   CommandInteractionOption list \<Rightarrow> py_error + 'r" where
  "invoke leaf (Command cb) interaction options = leaf cb interaction options"
| "invoke leaf (SubcommandGroup commands) interaction options =
     (case filter is_subcommand_option options of
        [] \<Rightarrow> Inl ValueError
      | found0 # _ \<Rightarrow>
        (case commands_get commands (opt_value found0) of
           Inl e \<Rightarrow> Inl e
         | Inr None \<Rightarrow> Inl LookupError
         | Inr (Some subcommand) \<Rightarrow> invoke leaf subcommand interaction (opt_options found0)))"
  by pat_completeness auto
termination
proof (relation "measure (\<lambda>(leaf, c, interaction, options). size c)")
  show "wf (measure (\<lambda>(leaf, c, interaction, options). size c))" by simp
next
  fix leaf :: "'cb \<Rightarrow> 'i \<Rightarrow> CommandInteractionOption list \<Rightarrow> py_error + 'r"
  fix commands :: "(string \<times> 'cb command) list"
  fix interaction :: 'i and options :: "CommandInteractionOption list"
  fix found0 rest x subcommand
  assume "commands_get commands (opt_value found0) = Inr x" and "x = Some subcommand"
  then have "\<exists>s. map_of commands s = Some subcommand"
    by (cases "opt_value found0") auto
  then obtain s where "(s, subcommand) \<in> set commands"
    by (auto dest: map_of_SomeD)
  then have "size subcommand < Suc (size_list (size_prod (\<lambda>_. 0) size) commands)"
    by (induction commands) auto
  then show "((leaf, subcommand, interaction, opt_options found0),
              (leaf, SubcommandGroup commands, interaction, options))
             \<in> measure (\<lambda>(leaf, c, interaction, options). size c)"
    by simp
qed

section \<open>Context-menu commands (wumpy/interactions/commands/context.py)\<close>

text \<open>
  A parameter's annotation is a Python object: a class (the usual case,
  \<open>AnnClass\<close>), the marker \<open>inspect.Parameter.empty\<close> of a parameter without
  annotation, or an object that is an instance of some class (\<open>AnnInstance\<close>).
  \<open>ContextMenuCommand.__init__\<close> assigns \<open>self.argument = MISSING\<close>
  (\<open>ArgMissing\<close>).
\<close>

datatype py_class = CommandInteraction_class | InteractionUser_class | OtherClass string

datatype annotation = AnnClass py_class | AnnEmpty | AnnInstance py_class | ArgMissing

text \<open>
  \<open>isinstance(obj, cls)\<close> for the objects above: a class and the markers are instances
  of their metaclass or marker class, never of \<open>cls\<close>; an instance of a class is an
  instance of \<open>cls\<close> when its class is a subclass of \<open>cls\<close> (the parameter
  \<open>issubclass\<close>, since the class hierarchy is not under src/).
\<close>

fun isinstance :: "(py_class \<Rightarrow> py_class \<Rightarrow> bool) \<Rightarrow> annotation \<Rightarrow> py_class \<Rightarrow> bool" where
  "isinstance issubclass (AnnInstance c) cls = issubclass c cls"
| "isinstance issubclass _ cls = False"

text \<open>
  The loop of \<open>ContextMenuCommand._set_callback\<close> over the annotations of the
  callback's parameters, from the argument stored so far.
\<close>

fun set_callback_loop ::
  "(py_class \<Rightarrow> py_class \<Rightarrow> bool) \<Rightarrow> annotation list \<Rightarrow> annotation \<Rightarrow> annotation" where
  "set_callback_loop issubclass [] argument = argument"
| "set_callback_loop issubclass (ann # params) argument =
     (if isinstance issubclass ann CommandInteraction_class
      then set_callback_loop issubclass params argument
      else ann)"

record 'u command_interaction =
  target_id :: "int option"
  resolved_users :: "(int \<times> 'u) list"

text \<open>
  \<open>UserCommand.resolve_value\<close>. \<open>not interaction.target_id\<close> holds for None and for 0.
  The result is \<open>users.get(target_id)\<close>, None when the id is not resolved.
\<close>

definition resolve_value ::
  "(py_class \<Rightarrow> py_class \<Rightarrow> bool) \<Rightarrow> annotation \<Rightarrow> 'u command_interaction \<Rightarrow> py_error + 'u option" where
  "resolve_value issubclass argument interaction =
     (case target_id interaction of
        None \<Rightarrow> Inl CommandSetupError
      | Some t \<Rightarrow>
        if t = 0 then Inl CommandSetupError
        else if isinstance issubclass argument InteractionUser_class
             then Inr (map_of (resolved_users interaction) t)
             else Inl CommandSetupError)"

section \<open>Message components (wumpy/interactions/components/component.py)\<close>

text \<open>
  A \<open>Result\<close> is an object on the heap: its event flag and its \<open>value\<close> slot. The heap
  is the list of all \<open>Result\<close> objects, an object's address its index. A waiter is the
  pair of a predicate and the address of its \<open>Result\<close>.
\<close>

record 'i Result =
  event_set :: bool
  result_value :: "'i slot"

type_synonym 'i waiter = "('i \<Rightarrow> bool) \<times> nat"

record ('i, 'cb) Component =
  comp_callback :: "'cb option"
  comp_waiters :: "'i waiter list"

definition Result_new :: "'i Result" where
  "Result_new = \<lparr>event_set = False, result_value = Unset\<rparr>"

text \<open>\<open>Result.set\<close>\<close>

definition Result_set :: "'i Result list \<Rightarrow> nat \<Rightarrow> 'i \<Rightarrow> 'i Result list" where
  "Result_set heap r v = heap[r := \<lparr>event_set = True, result_value = Assigned v\<rparr>]"

text \<open>\<open>list.pop(index)\<close> for an index inside the list.\<close>

definition list_pop :: "'a list \<Rightarrow> nat \<Rightarrow> 'a list" where
  "list_pop xs index = take index xs @ drop (Suc index) xs"

text \<open>
  The loop \<open>for index, (check, result) in enumerate(self._waiters)\<close>. The list iterator
  reads the list afresh at every step: it stops when its position is no longer inside
  the list, else it yields the element at that position and advances. The position
  and the count of \<open>enumerate\<close> both start at 0 and advance together, so \<open>index\<close>
  stands for both; the element read at \<open>index\<close> is the one \<open>pop(index)\<close> removes.
\<close>

function handle_loop ::
  "'i \<Rightarrow> nat \<Rightarrow> 'i waiter list \<Rightarrow> 'i Result list \<Rightarrow> 'i waiter list \<times> 'i Result list" where
  "handle_loop interaction index waiters heap =
     (if index < length waiters then
        (case waiters ! index of (check, result) \<Rightarrow>
           if check interaction
           then handle_loop interaction (Suc index) (list_pop waiters index)
                  (Result_set heap result interaction)
           else handle_loop interaction (Suc index) waiters heap)
      else (waiters, heap))"
  by pat_completeness auto
termination
  by (relation "measure (\<lambda>(interaction, index, waiters, heap). length waiters - index)")
     (auto simp: list_pop_def)

text \<open>
  \<open>Component.handle_interaction\<close>: \<open>tg\<close> is the task group, the list of the tasks
  started so far (callback and interaction).
\<close>

definition handle_interaction ::
  "('i, 'cb) Component \<Rightarrow> 'i Result list \<Rightarrow> ('cb \<times> 'i) list \<Rightarrow> 'i \<Rightarrow>
   ('i, 'cb) Component \<times> 'i Result list \<times> ('cb \<times> 'i) list" where
  "handle_interaction self heap tg interaction =
     (let tg' = (case comp_callback self of None \<Rightarrow> tg | Some cb \<Rightarrow> tg @ [(cb, interaction)]);
          (waiters', heap') = handle_loop interaction 0 (comp_waiters self) heap
      in (self\<lparr>comp_waiters := waiters'\<rparr>, heap', tg'))"

text \<open>The default of the parameter \<open>check\<close>: \<open>lambda i: True\<close>.\<close>

definition default_check :: "'i \<Rightarrow> bool" where
  "default_check i = True"

text \<open>
  \<open>Component.__call__\<close> in its two steps. First it creates a \<open>Result\<close> and appends the
  waiter; then it awaits \<open>event.wait()\<close> under \<open>anyio.fail_after(timeout)\<close>. The
  await ends in one of two ways: the event was set (\<open>Result.wait\<close> returns the value,
  or raises RuntimeError when there is none), or the deadline passed first
  (\<open>timed_out\<close>) and \<open>fail_after\<close> raises TimeoutError. The function has no
  \<open>except\<close> or \<open>finally\<close>: neither way touches \<open>_waiters\<close>. The address
  awaited is the one the first step returned, an index of the heap.
\<close>

definition call_register ::
  "('i, 'cb) Component \<Rightarrow> 'i Result list \<Rightarrow> ('i \<Rightarrow> bool) \<Rightarrow>
   ('i, 'cb) Component \<times> 'i Result list \<times> nat" where
  "call_register self heap check =
     (let event = length heap
      in (self\<lparr>comp_waiters := comp_waiters self @ [(check, event)]\<rparr>, heap @ [Result_new], event))"

definition call_await ::
  "('i, 'cb) Component \<Rightarrow> 'i Result list \<Rightarrow> nat \<Rightarrow> bool \<Rightarrow>
   (py_error + 'i) \<times> ('i, 'cb) Component \<times> 'i Result list" where
  "call_await self heap event timed_out =
     (if timed_out then (Inl TimeoutError, self, heap)
      else (case result_value (heap ! event) of
              Unset \<Rightarrow> (Inl RuntimeError, self, heap)
            | Assigned v \<Rightarrow> (Inr v, self, heap)))"

section \<open>In-memory cache (wumpy/cache/in_memory/user.py)\<close>

text \<open>
  A snowflake in a payload is typed \<open>Union[str, int]\<close>; the platform's JSON carries it
  as a string. \<open>int(x)\<close> of an int is the int; of a string it is what Python's builtin
  parser gives, the parameter \<open>str_int\<close> (None: ValueError). A string never equals an
  int in Python, as \<open>SnowStr s \<noteq> SnowInt n\<close> here.
\<close>

datatype snowflake_json = SnowStr string | SnowInt int

fun py_int :: "(string \<Rightarrow> int option) \<Rightarrow> snowflake_json \<Rightarrow> py_error + int" where
  "py_int str_int (SnowInt n) = Inr n"
| "py_int str_int (SnowStr s) = (case str_int s of None \<Rightarrow> Inl ValueError | Some n \<Rightarrow> Inr n)"

text \<open>
  The user payload (\<open>UserData\<close>): \<open>public_flags\<close> is the result of
  \<open>data.get('public_flags')\<close>, None when the key is missing.
\<close>

record UserData =
  ud_id :: snowflake_json
  ud_username :: string
  ud_discriminator :: string
  ud_public_flags :: "int option"

text \<open>
  The class \<open>User\<close> is not under src/. The four attributes \<open>_store_user\<close> reads are
  kept as dynamic values, so that any \<open>User.from_data\<close> fits, and Python's \<open>==\<close>
  between an attribute and a payload value is equality of dynamic values.
\<close>

datatype py_value = PNone | PInt int | PStr string

record User =
  user_id :: py_value
  user_name :: py_value
  user_discriminator :: py_value
  user_public_flags :: py_value

fun snowflake_value :: "snowflake_json \<Rightarrow> py_value" where
  "snowflake_value (SnowStr s) = PStr s"
| "snowflake_value (SnowInt n) = PInt n"

fun flags_value :: "int option \<Rightarrow> py_value" where
  "flags_value None = PNone"
| "flags_value (Some n) = PInt n"

text \<open>The four comparisons of the condition in \<open>_store_user\<close>.\<close>

definition user_matches :: "User \<Rightarrow> UserData \<Rightarrow> bool" where
  "user_matches user data =
     (user_id user = snowflake_value (ud_id data)
      \<and> user_name user = PStr (ud_username data)
      \<and> user_discriminator user = PStr (ud_discriminator data)
      \<and> user_public_flags user = flags_value (ud_public_flags data))"

text \<open>
  The guild member payload: \<open>guild_id\<close> is None when the key is missing;
  \<open>data['user']\<close> raises KeyError when there is no user.
\<close>

record GuildMemberData =
  gm_guild_id :: "snowflake_json option"
  gm_user :: "UserData option"

text \<open>
  What the cache uses of the packages that are not under src/: Python's \<open>int\<close> on a
  string, \<open>User.from_data\<close>, \<open>Member.from_user\<close> (given the address of the user
  object, the user and the payload) and the member's \<open>id\<close>.
\<close>

record 'm models_api =
  str_int :: "string \<Rightarrow> int option"
  User_from_data :: "UserData \<Rightarrow> User"
  Member_from_user :: "nat \<Rightarrow> User \<Rightarrow> GuildMemberData \<Rightarrow> 'm"
  Member_id :: "'m \<Rightarrow> int"

text \<open>
  The state: User objects live on a heap (a list, an object's address its index, so
  that two objects with equal fields are still two objects); \<open>_users\<close> maps an id to
  the address of a User; \<open>_members\<close> maps the key tuple to a Member. The first
  component of a member key is whatever was stored: the raw payload value.
\<close>

record 'm cache_state =
  cs_heap :: "User list"
  cs_users :: "int \<rightharpoonup> nat"
  cs_members :: "(snowflake_json \<times> int) \<rightharpoonup> 'm"

text \<open>
  \<open>self._users.get(key)\<close> on the WeakValueDictionary: the address and the object, or
  None when there is no entry (an entry whose object is gone counts as none). In the
  condition of \<open>_store_user\<close>, \<open>user and ...\<close>, None is false and a User object
  is taken to be true, as an object is unless its class says otherwise.
\<close>

definition users_get :: "'m cache_state \<Rightarrow> int \<Rightarrow> (nat \<times> User) option" where
  "users_get st k =
     (case cs_users st k of
        None \<Rightarrow> None
      | Some a \<Rightarrow> if a < length (cs_heap st) then Some (a, cs_heap st ! a) else None)"

text \<open>The last three lines of \<open>_store_user\<close>: a new object, stored and returned.\<close>

definition store_new :: "'m models_api \<Rightarrow> 'm cache_state \<Rightarrow> int \<Rightarrow> UserData \<Rightarrow> nat \<times> 'm cache_state" where
  "store_new api st k data =
     (let a = length (cs_heap st)
      in (a, st\<lparr>cs_heap := cs_heap st @ [User_from_data api data],
                cs_users := (cs_users st)(k \<mapsto> a)\<rparr>))"

text \<open>
  \<open>UserMemoryCache._store_user\<close>: the address of the returned User and the new
  state. The only exception is that of \<open>int(data['id'])\<close>, before any change.
\<close>

definition store_user ::
  "'m models_api \<Rightarrow> 'm cache_state \<Rightarrow> UserData \<Rightarrow> py_error + nat \<times> 'm cache_state" where
  "store_user api st data =
     (case py_int (str_int api) (ud_id data) of
        Inl e \<Rightarrow> Inl e
      | Inr k \<Rightarrow>
        (case users_get st k of
           Some (a, user) \<Rightarrow>
             if user_matches user data then Inr (a, st) else Inr (store_new api st k data)
         | None \<Rightarrow> Inr (store_new api st k data)))"

text \<open>
  \<open>MemberMemoryCache._process_guild_member_add\<close>: the returned pair (None and the
  member) and the new state.
\<close>

definition process_guild_member_add ::
  "'m models_api \<Rightarrow> 'm cache_state \<Rightarrow> GuildMemberData \<Rightarrow>
   py_error + ('m option \<times> 'm) \<times> 'm cache_state" where
  "process_guild_member_add api st data =
     (case gm_guild_id data of
        None \<Rightarrow> Inl ValueError
      | Some guild_id \<Rightarrow>
        (case gm_user data of
           None \<Rightarrow> Inl KeyError
         | Some user_data \<Rightarrow>
           (case store_user api st user_data of
              Inl e \<Rightarrow> Inl e
            | Inr (a, st') \<Rightarrow>
              (let member = Member_from_user api a (cs_heap st' ! a) data
               in Inr ((None, member),
                       st'\<lparr>cs_members := (cs_members st')((guild_id, Member_id api member) \<mapsto> member)\<rparr>)))))"

text \<open>\<open>MemberMemoryCache.get_member\<close>: \<open>self._members.get((int(guild), int(user)))\<close>\<close>

definition get_member ::
  "'m models_api \<Rightarrow> 'm cache_state \<Rightarrow> snowflake_json \<Rightarrow> snowflake_json \<Rightarrow> py_error + 'm option" where
  "get_member api st guild user =
     (case py_int (str_int api) guild of
        Inl e \<Rightarrow> Inl e
      | Inr g \<Rightarrow>
        (case py_int (str_int api) user of
           Inl e \<Rightarrow> Inl e
         | Inr u \<Rightarrow> Inr (cs_members st (SnowInt g, u))))"

text \<open>
  For evaluation, Python's \<open>int\<close> on a non-empty string of ASCII digits, which
  is all that a snowflake string holds.
\<close>

definition digit_of :: "char \<Rightarrow> int option" where
  "digit_of c = map_of (zip ''0123456789'' [0, 1, 2, 3, 4, 5, 6, 7, 8, 9]) c"

fun digits_int :: "string \<Rightarrow> int \<Rightarrow> int option" where
  "digits_int [] acc = Some acc"
| "digits_int (c # cs) acc =
     (case digit_of c of None \<Rightarrow> None | Some d \<Rightarrow> digits_int cs (10 * acc + d))"

definition decimal_int :: "string \<Rightarrow> int option" where
  "decimal_int s = (if s = [] then None else digits_int s 0)"

text \<open>
  Modelled from the spec: \<open>User.from_data\<close>, \<open>Member.from_user\<close> and the member's
  \<open>id\<close>, whose classes are not under src/. The spec's data model has a Snowflake as
  a 64-bit unsigned integer and a User as id (snowflake), name, discriminator and
  public flags; a Member wraps a User by reference and is keyed by the user's id. So
  the User keeps \<open>int(data['id'])\<close> as its id (as \<open>Interaction.__init__\<close> passes
  \<open>int(data['id'])\<close> to the same base class) and the other three fields as the
  payload has them; the Member is the address of its user with the user's id.
\<close>

definition sample_api :: "(nat \<times> int) models_api" where
  "sample_api =
     \<lparr>str_int = decimal_int,
      User_from_data = (\<lambda>d. \<lparr>user_id = (case py_int decimal_int (ud_id d) of
                                            Inr n \<Rightarrow> PInt n | Inl e \<Rightarrow> PNone),
                             user_name = PStr (ud_username d),
                             user_discriminator = PStr (ud_discriminator d),
                             user_public_flags = flags_value (ud_public_flags d)\<rparr>),
      Member_from_user = (\<lambda>a u d. (a, case user_id u of PInt n \<Rightarrow> n | _ \<Rightarrow> 0)),
      Member_id = snd\<rparr>"

section \<open>Extensions (wumpy/bot/_extension.py)\<close>

text \<open>
  The target of a load is a CommandRegistrar, a ComponentHandler, an EventDispatcher or
  several of them: a part is None when the target is not an instance of that class.
  Its dicts are maps, so that two targets are equal when their mappings are.
  \<open>_listeners\<close> maps an event name to a dict from initializer to the list of
  callbacks. The containers of a target are taken not to be shared between keys.
\<close>

record ('ini, 'cb, 'cmd, 'el) registrar =
  reg_listeners :: "(string \<rightharpoonup> ('ini \<rightharpoonup> 'cb list)) option"
  reg_commands :: "(string \<rightharpoonup> 'cmd) option"
  reg_components :: "'el list option"

text \<open>
  The extension's own dicts are iterated, so they are association lists in iteration
  order. \<open>ext_data\<close> is \<open>_data\<close>, None until loaded.
\<close>

record ('ini, 'cb, 'cmd, 'el, 'd) extension =
  ext_listeners :: "(string \<times> ('ini \<times> 'cb list) list) list"
  ext_commands :: "(string \<times> 'cmd) list"
  ext_components :: "'el list"
  ext_data :: "'d option"

text \<open>The inner loop of \<open>load\<close> over \<open>events.items()\<close>, on one container.\<close>

fun load_events :: "('ini \<times> 'cb list) list \<Rightarrow> ('ini \<rightharpoonup> 'cb list) \<Rightarrow> ('ini \<rightharpoonup> 'cb list)" where
  "load_events [] container = container"
| "load_events ((initializer, callbacks) # rest) container =
     load_events rest
       (case container initializer of
          Some registered \<Rightarrow> container(initializer \<mapsto> registered @ callbacks)
        | None \<Rightarrow> container(initializer \<mapsto> callbacks))"

text \<open>The outer loop of \<open>load\<close> over \<open>self._listeners.items()\<close>.\<close>

fun load_listeners ::
  "(string \<times> ('ini \<times> 'cb list) list) list \<Rightarrow> (string \<rightharpoonup> ('ini \<rightharpoonup> 'cb list)) \<Rightarrow>
   (string \<rightharpoonup> ('ini \<rightharpoonup> 'cb list))" where
  "load_listeners [] listeners = listeners"
| "load_listeners ((name, events) # rest) listeners =
     (let container = (case listeners name of None \<Rightarrow> Map.empty | Some c \<Rightarrow> c)
      in load_listeners rest (listeners(name \<mapsto> load_events events container)))"

text \<open>\<open>target._commands.update(self._commands)\<close>\<close>

fun dict_update :: "(string \<rightharpoonup> 'cmd) \<Rightarrow> (string \<times> 'cmd) list \<Rightarrow> (string \<rightharpoonup> 'cmd)" where
  "dict_update commands [] = commands"
| "dict_update commands ((k, v) # rest) = dict_update (commands(k \<mapsto> v)) rest"

text \<open>\<open>Extension.load\<close>: the target and the extension after the call.\<close>

definition load ::
  "('ini, 'cb, 'cmd, 'el, 'd) extension \<Rightarrow> ('ini, 'cb, 'cmd, 'el) registrar \<Rightarrow> 'd \<Rightarrow>
   ('ini, 'cb, 'cmd, 'el) registrar \<times> ('ini, 'cb, 'cmd, 'el, 'd) extension" where
  "load self target data =
     (let target1 = target\<lparr>reg_listeners := map_option (load_listeners (ext_listeners self)) (reg_listeners target)\<rparr>;
          target2 = target1\<lparr>reg_commands := map_option (\<lambda>c. dict_update c (ext_commands self)) (reg_commands target1)\<rparr>;
          target3 = target2\<lparr>reg_components := map_option (\<lambda>c. c @ ext_components self) (reg_components target2)\<rparr>
      in (target3, self\<lparr>ext_data := Some data\<rparr>))"

text \<open>
  \<open>unload\<close> collects its failures in \<open>to_raise\<close>: each new exception gets the
  previous one as its cause. Here \<open>to_raise\<close> is the list of the exceptions, the
  newest first; \<open>unload\<close> raises when it is not empty.

  \<open>registered.remove(callback)\<close> for each callback: ValueError when it is not there.
\<close>

fun remove_all :: "'a list \<Rightarrow> 'a list \<Rightarrow> py_error list \<Rightarrow> 'a list \<times> py_error list" where
  "remove_all [] registered to_raise = (registered, to_raise)"
| "remove_all (callback # callbacks) registered to_raise =
     (if callback \<in> set registered
      then remove_all callbacks (remove1 callback registered) to_raise
      else remove_all callbacks registered (ValueError # to_raise))"

text \<open>The loop of \<open>unload\<close> over \<open>events.items()\<close>, on one container.\<close>

fun unload_events ::
  "('ini \<times> 'cb list) list \<Rightarrow> ('ini \<rightharpoonup> 'cb list) \<Rightarrow> py_error list \<Rightarrow>
   ('ini \<rightharpoonup> 'cb list) \<times> py_error list" where
  "unload_events [] container to_raise = (container, to_raise)"
| "unload_events ((initializer, callbacks) # rest) container to_raise =
     (case container initializer of
        None \<Rightarrow> unload_events rest container (KeyError # to_raise)
      | Some registered \<Rightarrow>
        (case remove_all callbacks registered to_raise of
           (registered', to_raise') \<Rightarrow>
             unload_events rest
               (if registered' = [] then container(initializer := None)
                else container(initializer \<mapsto> registered'))
               to_raise'))"

text \<open>The loop of \<open>unload\<close> over \<open>self._listeners.items()\<close>.\<close>

fun unload_listeners ::
  "(string \<times> ('ini \<times> 'cb list) list) list \<Rightarrow> (string \<rightharpoonup> ('ini \<rightharpoonup> 'cb list)) \<Rightarrow> py_error list \<Rightarrow>
   (string \<rightharpoonup> ('ini \<rightharpoonup> 'cb list)) \<times> py_error list" where
  "unload_listeners [] listeners to_raise = (listeners, to_raise)"
| "unload_listeners ((name, events) # rest) listeners to_raise =
     (case listeners name of
        None \<Rightarrow> unload_listeners rest listeners (KeyError # to_raise)
      | Some container \<Rightarrow>
        (case unload_events events container to_raise of
           (container', to_raise') \<Rightarrow>
             unload_listeners rest
               (if container' = Map.empty then listeners(name := None)
                else listeners(name \<mapsto> container'))
               to_raise'))"

text \<open>
  \<open>del target._commands[command]\<close> for each command name; a KeyError is passed
  over.
\<close>

fun dict_delete :: "(string \<rightharpoonup> 'cmd) \<Rightarrow> (string \<times> 'cmd) list \<Rightarrow> (string \<rightharpoonup> 'cmd)" where
  "dict_delete commands [] = commands"
| "dict_delete commands ((k, v) # rest) = dict_delete (commands(k := None)) rest"

text \<open>
  \<open>Extension.unload\<close>: the target and the extension after the call, and
  \<open>to_raise\<close>. The changes to the target stay when the call raises.
\<close>

definition unload ::
  "('ini, 'cb, 'cmd, 'el, 'd) extension \<Rightarrow> ('ini, 'cb, 'cmd, 'el) registrar \<Rightarrow>
   ('ini, 'cb, 'cmd, 'el) registrar \<times> ('ini, 'cb, 'cmd, 'el, 'd) extension \<times> py_error list" where
  "unload self target =
     (let (listeners', to_raise1) =
            (case reg_listeners target of
               None \<Rightarrow> (None, [])
             | Some l \<Rightarrow> (case unload_listeners (ext_listeners self) l [] of
                            (l', errs) \<Rightarrow> (Some l', errs)));
          commands' = map_option (\<lambda>c. dict_delete c (ext_commands self)) (reg_commands target);
          (components', to_raise2) =
            (case reg_components target of
               None \<Rightarrow> (None, to_raise1)
             | Some c \<Rightarrow> (case remove_all (ext_components self) c to_raise1 of
                            (c', errs) \<Rightarrow> (Some c', errs)))
      in (\<lparr>reg_listeners = listeners', reg_commands = commands', reg_components = components'\<rparr>,
          self\<lparr>ext_data := None\<rparr>, to_raise2))"

section \<open>ASGI endpoint (wumpy/interactions/_asgi.py)\<close>

text \<open>
  Bytes are strings. A scope has its type, path, method and headers; an event
  returned by \<open>receive\<close> has its type, body and \<open>more_body\<close> flag. \<open>receive\<close> is the
  list of the events still to come: awaiting it on an empty list never returns.
\<close>

record asgi_scope =
  sc_type :: string
  sc_path :: string
  sc_method :: string
  sc_headers :: "(string \<times> string) list"

record asgi_event =
  ev_type :: string
  ev_body :: string
  ev_more_body :: bool

record asgi_app =
  app_method :: string
  app_path :: string

text \<open>
  What the endpoint calls that is not under src/: the application's
  \<open>authenticate_request\<close>, \<open>__aenter__\<close> and \<open>__aexit__\<close> (whether they return without
  raising), the UTF-8 decoder, \<open>json.loads\<close>, and the messages that the dispatch of
  an interaction sends.
\<close>

record asgi_env =
  authenticate_request :: "string \<Rightarrow> string \<Rightarrow> string \<Rightarrow> bool"
  decode_utf8 :: "string \<Rightarrow> string option"
  json_loads :: "string \<Rightarrow> json option"
  dispatch :: "json \<Rightarrow> asgi_message list"
  aenter_ok :: bool
  aexit_ok :: bool

text \<open>
  How a call ends: it returns, it raises, or it awaits \<open>receive\<close> for ever; each
  with the messages sent so far.
\<close>

datatype asgi_outcome =
    Returned "asgi_message list"
  | Raised py_error "asgi_message list"
  | Blocked "asgi_message list"

definition plain_response :: "nat \<Rightarrow> string \<Rightarrow> asgi_message list" where
  "plain_response status body =
     [ResponseStart status [(''content-type'', ''text/plain'')], ResponseBody body]"

text \<open>\<open>_lifespan\<close>\<close>

definition lifespan :: "asgi_env \<Rightarrow> asgi_event list \<Rightarrow> asgi_outcome" where
  "lifespan env receive =
     (case receive of
        [] \<Rightarrow> Blocked []
      | event # _ \<Rightarrow>
        if ev_type event = ''lifespan.startup'' then
          Returned [LifespanMessage (if aenter_ok env then ''lifespan.startup.complete''
                                     else ''lifespan.startup.failed'')]
        else if ev_type event = ''lifespan.shutdown'' then
          Returned [LifespanMessage (if aexit_ok env then ''lifespan.shutdown.complete''
                                     else ''lifespan.shutdown.failed'')]
        else Returned [])"

text \<open>
  \<open>_verify_request_target\<close>: whether a response was sent, and the messages sent. The
  method is compared with the literal \<open>'POST'\<close>.
\<close>

definition verify_request_target :: "asgi_app \<Rightarrow> asgi_scope \<Rightarrow> bool \<times> asgi_message list" where
  "verify_request_target self scope =
     (if sc_type scope \<noteq> ''http'' then (True, plain_response 501 ''Not Implemented'')
      else if sc_path scope \<noteq> app_path self then (True, plain_response 404 ''Not Found'')
      else if sc_method scope \<noteq> ''POST'' then (True, plain_response 405 ''Method Not Allowed'')
      else (False, []))"

text \<open>
  The loop of \<open>_authenticate_request\<close> over the headers: None when it returns early
  on a foreign content type, else the signature and the timestamp found.
\<close>

fun scan_headers ::
  "(string \<times> string) list \<Rightarrow> string option \<Rightarrow> string option \<Rightarrow> (string option \<times> string option) option" where
  "scan_headers [] signature timestamp = Some (signature, timestamp)"
| "scan_headers ((header, v) # rest) signature timestamp =
     (if header = ''content-type'' \<and> v \<noteq> ''application/json'' then None
      else if header = ''x-signature-timestamp'' then scan_headers rest signature (Some v)
      else if header = ''x-signature-ed25519'' then scan_headers rest (Some v) timestamp
      else scan_headers rest signature timestamp)"

text \<open>
  The loop \<open>while request['more_body']\<close>: None when \<open>receive\<close> runs dry before an
  event without \<open>more_body\<close>.
\<close>

fun read_body :: "asgi_event list \<Rightarrow> string \<Rightarrow> string option" where
  "read_body [] body = None"
| "read_body (request # rest) body =
     (if ev_more_body request then read_body rest (body @ ev_body request)
      else Some (body @ ev_body request))"

text \<open>
  \<open>_authenticate_request\<close>: the pair (verified, body), or the exception of
  \<open>signature.decode\<close>, or None when it never returns.
\<close>

definition authenticate ::
  "asgi_env \<Rightarrow> asgi_scope \<Rightarrow> asgi_event list \<Rightarrow> (py_error + bool \<times> string option) option" where
  "authenticate env scope receive =
     (case scan_headers (sc_headers scope) None None of
        None \<Rightarrow> Some (Inr (False, None))
      | Some (None, _) \<Rightarrow> Some (Inr (False, None))
      | Some (Some signature, None) \<Rightarrow> Some (Inr (False, None))
      | Some (Some signature, Some timestamp) \<Rightarrow>
        (case read_body receive [] of
           None \<Rightarrow> None
         | Some body \<Rightarrow>
           (case decode_utf8 env signature of
              None \<Rightarrow> Some (Inl UnicodeDecodeError)
            | Some sig \<Rightarrow>
              Some (Inr (authenticate_request env sig timestamp body, Some body)))))"

text \<open>
  \<open>data['type'] == 1\<close> on the decoded body: KeyError without the key, TypeError when
  the body is no object; \<open>True == 1\<close> holds in Python.
\<close>

fun is_ping :: "json \<Rightarrow> py_error + bool" where
  "is_ping (JObj items) =
     (case map_of items ''type'' of
        None \<Rightarrow> Inl KeyError
      | Some t \<Rightarrow> Inr (t = JInt 1 \<or> t = JBool True))"
| "is_ping _ = Inl TypeError"

text \<open>\<open>InteractionASGIApp.__call__\<close>\<close>

definition asgi_call :: "asgi_app \<Rightarrow> asgi_env \<Rightarrow> asgi_scope \<Rightarrow> asgi_event list \<Rightarrow> asgi_outcome" where
  "asgi_call self env scope receive =
     (if sc_type scope = ''lifespan'' then lifespan env receive
      else
        (case verify_request_target self scope of
           (True, sent) \<Rightarrow> Returned sent
         | (False, sent) \<Rightarrow>
           (case authenticate env scope receive of
              None \<Rightarrow> Blocked sent
            | Some (Inl e) \<Rightarrow> Raised e sent
            | Some (Inr (verified, body)) \<Rightarrow>
              (case body of
                 None \<Rightarrow> Returned (sent @ plain_response 401 ''Unauthorized'')
               | Some b \<Rightarrow>
                 if \<not> verified then Returned (sent @ plain_response 401 ''Unauthorized'')
                 else
                   (case json_loads env b of
                      None \<Rightarrow> Raised JSONDecodeError sent
                    | Some data \<Rightarrow>
                      (case is_ping data of
                         Inl e \<Rightarrow> Raised e sent
                       | Inr True \<Rightarrow>
                           Returned (sent @ [ResponseStart 200 [(''content-type'', ''application/json'')],
                                             ResponseJson (JObj [(''type'', JInt 1)])])
                       | Inr False \<Rightarrow> Returned (sent @ dispatch env data)))))))"

section \<open>Theorems\<close>

subsection \<open>SelectInteractionValue\<close>

lemma select_value_fields:
  assumes "map_of data ''label'' = Some l" and "map_of data ''value'' = Some v"
  shows "SelectInteractionValue_init data =
           Inr \<lparr>siv_label = Assigned l, siv_value = Assigned v,
                siv_description = Assigned (dict_get data ''description''),
                siv_emoji = Assigned (dict_get data ''default''),
                siv_default = Unset\<rparr>"
  using assms
  by (simp add: SelectInteractionValue_init_def SelectInteractionValue_new_def dict_item_def)

text \<open>
  C10. The claim: a payload with label, value, an emoji entry and a default entry
  gives a SelectInteractionValue whose emoji field is the emoji entry and whose default
  field is the default flag. The code assigns \<open>self.emoji\<close> twice and never
  \<open>self.default\<close>: on the payload below the emoji field holds the default flag
  (True), the emoji entry is lost and the default slot stays unset.
\<close>

theorem select_value_default_lost:
  "SelectInteractionValue_init
     [(''label'', JStr ''a''), (''value'', JStr ''b''),
      (''emoji'', JObj [(''name'', JStr ''x'')]), (''default'', JBool True)]
   = Inr \<lparr>siv_label = Assigned (JStr ''a''), siv_value = Assigned (JStr ''b''),
          siv_description = Assigned JNull, siv_emoji = Assigned (JBool True),
          siv_default = Unset\<rparr>"
  by (simp add: SelectInteractionValue_init_def SelectInteractionValue_new_def
      dict_item_def dict_get_def)

subsection \<open>Interaction.respond\<close>

text \<open>
  C6. A call of \<open>respond\<close> with only \<open>content\<close> given sends the 200 start message
  and a body of type 4 whose data object has the one key \<open>content\<close>; with
  \<open>ephemeral=True\<close> as well, the data object has \<open>content\<close> and \<open>flags\<close> equal
  to 64, and nothing else.
\<close>

theorem respond_omits_unset:
  "respond mk (Given c) MISSING MISSING MISSING MISSING MISSING =
     ([ResponseStart 200 [(''content-type'', ''application/json'')],
       ResponseJson (JObj [(''type'', JInt 4), (''data'', JObj [(''content'', JStr c)])])], None)
   \<and> respond mk (Given c) MISSING MISSING MISSING (Given True) MISSING =
     ([ResponseStart 200 [(''content-type'', ''application/json'')],
       ResponseJson (JObj [(''type'', JInt 4),
                           (''data'', JObj [(''content'', JStr c), (''flags'', JInt 64)])])], None)"
  by (simp add: respond_def respond_data_def drop_missing_def)

subsection \<open>SubcommandGroup\<close>

text \<open>What the group does: no subcommand option, and the lookup of the first one's value.\<close>

lemma invoke_no_subcommand:
  "filter is_subcommand_option options = [] \<Longrightarrow>
   invoke leaf (SubcommandGroup commands) interaction options = Inl ValueError"
  by simp

lemma invoke_routes_by_value:
  "filter is_subcommand_option options = found0 # rest \<Longrightarrow> opt_value found0 = JStr s \<Longrightarrow>
   invoke leaf (SubcommandGroup commands) interaction options =
     (case map_of commands s of
        None \<Rightarrow> Inl LookupError
      | Some sub \<Rightarrow> invoke leaf sub interaction (opt_options found0))"
  by (simp split: option.splits)

lemma invoke_without_value:
  "filter is_subcommand_option options = found0 # rest \<Longrightarrow> opt_value found0 = JNull \<Longrightarrow>
   invoke leaf (SubcommandGroup commands) interaction options = Inl LookupError"
  by simp

text \<open>
  C1. The claim: the group looks up the name of the first subcommand option among its
  registered subcommands and invokes the one found with the option's nested options.
  The code looks up the option's \<open>value\<close>. A subcommand option carries nested
  options and no value, so for the group with subcommands add and remove and the
  option named remove, the call raises LookupError and the remove command is not
  invoked.
\<close>

theorem subcommand_group_looks_up_value:
  "invoke leaf (SubcommandGroup [(''add'', Command a), (''remove'', Command r)]) interaction
     [CommandInteractionOption ''remove'' ACO_subcommand JNull nested] = Inl LookupError"
  by (simp add: is_subcommand_option_def)

subsection \<open>UserCommand\<close>

text \<open>
  Whatever is stored as the argument, unless it is an instance object of a subclass of
  InteractionUser, \<open>resolve_value\<close> raises the setup error.
\<close>

lemma resolve_value_instance:
  "issubclass c InteractionUser_class \<Longrightarrow> target_id interaction = Some t \<Longrightarrow> t \<noteq> 0 \<Longrightarrow>
   resolve_value issubclass (AnnInstance c) interaction =
     Inr (map_of (resolved_users interaction) t)"
  by (simp add: resolve_value_def)

lemma resolve_value_needs_instance:
  "\<forall>c. argument \<noteq> AnnInstance c \<Longrightarrow>
   resolve_value issubclass argument interaction = Inl CommandSetupError"
  by (cases argument) (auto simp: resolve_value_def split: option.splits)

text \<open>
  C9. The claim: with a target id that is resolved, \<open>resolve_value\<close> returns the user
  when the stored annotation of the second argument is the user kind. For the callback
  annotated \<open>(CommandInteraction, InteractionUser)\<close> the loop of \<open>_set_callback\<close>
  stores the annotation of the first parameter (a class is no instance of
  CommandInteraction, so nothing is skipped), and \<open>resolve_value\<close> raises the setup
  error for it, as it does for the class InteractionUser itself: \<open>isinstance\<close>
  of a class is false.
\<close>

theorem user_command_always_setup_error:
  "set_callback_loop issubclass
     [AnnClass CommandInteraction_class, AnnClass InteractionUser_class] ArgMissing
     = AnnClass CommandInteraction_class
   \<and> resolve_value issubclass (AnnClass CommandInteraction_class)
       \<lparr>target_id = Some 5, resolved_users = [(5, u)]\<rparr> = Inl CommandSetupError
   \<and> resolve_value issubclass (AnnClass InteractionUser_class)
       \<lparr>target_id = Some 5, resolved_users = [(5, u)]\<rparr> = Inl CommandSetupError"
  by (simp add: resolve_value_def)

subsection \<open>Component\<close>

text \<open>A scan in which no waiter from \<open>index\<close> on accepts changes nothing.\<close>

lemma handle_loop_rejects:
  "\<forall>k. index \<le> k \<and> k < length waiters \<longrightarrow> \<not> fst (waiters ! k) interaction \<Longrightarrow>
   handle_loop interaction index waiters heap = (waiters, heap)"
proof (induction interaction index waiters heap rule: handle_loop.induct)
  case (1 interaction index waiters heap)
  show ?case
  proof (cases "index < length waiters")
    case False
    then show ?thesis by (subst handle_loop.simps) simp
  next
    case True
    obtain check result where w: "waiters ! index = (check, result)"
      by (cases "waiters ! index")
    from "1.prems" True w have rej: "\<not> check interaction"
      by (metis fst_conv le_refl)
    have "handle_loop interaction (Suc index) waiters heap = (waiters, heap)"
      using "1.IH"(2)[OF True w[symmetric] rej] "1.prems" by auto
    then show ?thesis using True w rej by (subst handle_loop.simps) simp
  qed
qed

text \<open>
  When the last waiter is the only one from \<open>index\<close> on that accepts, the scan
  reaches it, sets its result and removes it.
\<close>

lemma handle_loop_last_accepts:
  assumes "index \<le> length waiters"
    and "\<forall>k. index \<le> k \<and> k < length waiters \<longrightarrow> \<not> fst (waiters ! k) interaction"
    and "check interaction"
  shows "handle_loop interaction index (waiters @ [(check, event)]) heap =
           (waiters, Result_set heap event interaction)"
  using assms
proof (induction "length waiters - index" arbitrary: index)
  case 0
  then have idx: "index = length waiters" by simp
  have pop: "list_pop (waiters @ [(check, event)]) (length waiters) = waiters"
    by (simp add: list_pop_def)
  have stop: "handle_loop interaction (Suc (length waiters)) waiters
                (Result_set heap event interaction)
              = (waiters, Result_set heap event interaction)"
    by (subst handle_loop.simps) simp
  show ?case
    unfolding idx
    by (subst handle_loop.simps) (simp add: pop stop "0.prems"(3))
next
  case (Suc n)
  then have lt: "index < length waiters" by simp
  obtain c r where w: "waiters ! index = (c, r)" by (cases "waiters ! index")
  from Suc.prems(2) lt w have rej: "\<not> c interaction" by (metis fst_conv le_refl)
  have w': "(waiters @ [(check, event)]) ! index = (c, r)"
    using lt w by (simp add: nth_append)
  have IH: "handle_loop interaction (Suc index) (waiters @ [(check, event)]) heap =
              (waiters, Result_set heap event interaction)"
    using Suc.hyps(1)[of "Suc index"] Suc.hyps(2) Suc.prems lt by auto
  show ?case
    using lt w' rej IH by (subst handle_loop.simps) simp
qed

text \<open>
  C2. The claim: \<open>handle_interaction\<close> resolves and removes every waiter whose
  predicate accepts the interaction, and skips none because an earlier one was
  removed. With two pending waiters that both accept, the code resolves and removes
  the first; the list has then moved up under the iterator, the second waiter is never
  read, stays pending and its result stays unset.
\<close>

theorem handle_interaction_skips_waiter:
  "handle_interaction
     \<lparr>comp_callback = None, comp_waiters = [(default_check, 0), (default_check, 1)]\<rparr>
     [Result_new, Result_new] [] (7::nat)
   = (\<lparr>comp_callback = None, comp_waiters = [(default_check, 1)]\<rparr>,
      [\<lparr>event_set = True, result_value = Assigned 7\<rparr>, Result_new], [])"
  by (simp add: handle_interaction_def list_pop_def Result_set_def default_check_def)

text \<open>
  C3, as the code has it. When the deadline passes, the wait fails with TimeoutError
  and changes nothing else: the waiter registered by the call is still the last entry
  of the pending list. A later \<open>handle_interaction\<close> with an interaction that the
  waiter's predicate accepts and every older waiter rejects sets the result of that
  waiter and removes it only then.
\<close>

theorem wait_timeout_keeps_waiter:
  "(case call_register self heap check of (c1, h1, event) \<Rightarrow>
     case call_await c1 h1 event True of (outcome, c2, h2) \<Rightarrow>
       outcome = Inl TimeoutError \<and> c2 = c1 \<and> h2 = h1
       \<and> comp_waiters c2 = comp_waiters self @ [(check, event)]
       \<and> (check interaction \<and> (\<forall>w \<in> set (comp_waiters self). \<not> fst w interaction) \<longrightarrow>
            (case handle_interaction c2 h2 tg interaction of (c3, h3, tg') \<Rightarrow>
               comp_waiters c3 = comp_waiters self
               \<and> h3 ! event = \<lparr>event_set = True, result_value = Assigned interaction\<rparr>)))"
proof -
  have "check interaction \<Longrightarrow> \<forall>w \<in> set (comp_waiters self). \<not> fst w interaction \<Longrightarrow>
        handle_loop interaction 0 (comp_waiters self @ [(check, length heap)])
          (heap @ [Result_new])
        = (comp_waiters self, Result_set (heap @ [Result_new]) (length heap) interaction)"
    by (rule handle_loop_last_accepts) auto
  then show ?thesis
    by (auto simp del: handle_loop.simps
        simp: call_register_def call_await_def handle_interaction_def Let_def Result_set_def)
qed

theorem wait_timeout_keeps_waiter_witness:
  "(case call_register
           \<lparr>comp_callback = (None :: unit option), comp_waiters = [((=) 3, 0)]\<rparr>
           [Result_new] default_check of (c1, h1, event) \<Rightarrow>
     case call_await c1 h1 event True of (outcome, c2, h2) \<Rightarrow>
       case handle_interaction c2 h2 [] (7::nat) of (c3, h3, tg') \<Rightarrow>
         outcome = Inl TimeoutError \<and> comp_waiters c2 = [((=) 3, 0), (default_check, 1)]
         \<and> comp_waiters c3 = [((=) 3, 0)]
         \<and> h3 ! event = \<lparr>event_set = True, result_value = Assigned 7\<rparr>)"
  using wait_timeout_keeps_waiter
    [where self = "\<lparr>comp_callback = (None :: unit option), comp_waiters = [((=) 3, 0)]\<rparr>"
       and heap = "[Result_new]" and check = default_check and interaction = "7::nat"
       and tg = "[]"]
  by (simp add: call_register_def call_await_def default_check_def split: prod.splits)

text \<open>
  The claim C3 as stated fails: after the timeout of the only wait on a component, the
  pending list still holds its waiter, and the next \<open>handle_interaction\<close> resolves
  that slot and removes the waiter.
\<close>

theorem wait_timeout_counterexample:
  "call_register \<lparr>comp_callback = (None :: unit option), comp_waiters = []\<rparr> [] default_check
     = (\<lparr>comp_callback = None, comp_waiters = [(default_check, 0)]\<rparr>, [Result_new], 0)
   \<and> call_await \<lparr>comp_callback = (None :: unit option), comp_waiters = [(default_check, 0)]\<rparr>
        [Result_new] 0 True
     = (Inl TimeoutError, \<lparr>comp_callback = None, comp_waiters = [(default_check, 0)]\<rparr>,
        [Result_new])
   \<and> handle_interaction
        \<lparr>comp_callback = (None :: unit option), comp_waiters = [(default_check, 0)]\<rparr>
        [Result_new] [] (7::nat)
     = (\<lparr>comp_callback = None, comp_waiters = []\<rparr>,
        [\<lparr>event_set = True, result_value = Assigned 7\<rparr>], [])"
  by (simp add: call_register_def call_await_def handle_interaction_def list_pop_def
      Result_set_def default_check_def)

subsection \<open>User cache\<close>

lemma store_new_props:
  "store_new api st k data = (a, st') \<Longrightarrow>
   a = length (cs_heap st) \<and> cs_heap st' = cs_heap st @ [User_from_data api data]
   \<and> cs_users st' = (cs_users st)(k \<mapsto> a) \<and> cs_members st' = cs_members st
   \<and> users_get st' k = Some (a, User_from_data api data)"
  by (auto simp: store_new_def Let_def users_get_def)

lemma store_user_members:
  "store_user api st data = Inr (a, st') \<Longrightarrow> cs_members st' = cs_members st"
  by (auto simp: store_user_def store_new_def Let_def split: sum.splits option.splits if_splits)

text \<open>
  What \<open>_store_user\<close> does for a payload whose id converts to the int \<open>k\<close>. When
  the cache holds a live user under \<open>k\<close> that passes the four comparisons of the
  code, it returns that very object (its address) and changes nothing. Otherwise it
  returns a new object: its address is fresh, the object is \<open>User.from_data\<close> of the
  payload, it is stored under \<open>k\<close>, and no other entry and no member changes.
\<close>

lemma store_user_hit_or_new:
  assumes "py_int (str_int api) (ud_id data) = Inr k"
  shows "(\<forall>a user. users_get st k = Some (a, user) \<and> user_matches user data \<longrightarrow>
            store_user api st data = Inr (a, st))
       \<and> ((\<forall>a user. users_get st k = Some (a, user) \<longrightarrow> \<not> user_matches user data) \<longrightarrow>
            (\<exists>a st'. store_user api st data = Inr (a, st')
               \<and> a = length (cs_heap st)
               \<and> (\<forall>a0 user0. users_get st k = Some (a0, user0) \<longrightarrow> a \<noteq> a0)
               \<and> cs_heap st' = cs_heap st @ [User_from_data api data]
               \<and> cs_users st' = (cs_users st)(k \<mapsto> a)
               \<and> users_get st' k = Some (a, User_from_data api data)
               \<and> cs_members st' = cs_members st))"
proof (intro conjI allI impI)
  fix a user
  assume "users_get st k = Some (a, user) \<and> user_matches user data"
  then show "store_user api st data = Inr (a, st)"
    using assms by (simp add: store_user_def)
next
  assume miss: "\<forall>a user. users_get st k = Some (a, user) \<longrightarrow> \<not> user_matches user data"
  obtain a st' where new: "store_new api st k data = (a, st')"
    by (cases "store_new api st k data")
  have call: "store_user api st data = Inr (a, st')"
    using assms miss new by (auto simp: store_user_def split: option.splits)
  have fresh: "\<forall>a0 user0. users_get st k = Some (a0, user0) \<longrightarrow> a \<noteq> a0"
    using store_new_props[OF new] by (auto simp: users_get_def split: option.splits if_splits)
  show "\<exists>a st'. store_user api st data = Inr (a, st')
               \<and> a = length (cs_heap st)
               \<and> (\<forall>a0 user0. users_get st k = Some (a0, user0) \<longrightarrow> a \<noteq> a0)
               \<and> cs_heap st' = cs_heap st @ [User_from_data api data]
               \<and> cs_users st' = (cs_users st)(k \<mapsto> a)
               \<and> users_get st' k = Some (a, User_from_data api data)
               \<and> cs_members st' = cs_members st"
    using call fresh store_new_props[OF new] by blast
qed

text \<open>
  The first comparison is \<open>user.id == data['id']\<close>, with the raw payload value,
  while the key is \<open>int(data['id'])\<close>. For a payload whose id is a string, a cached
  user whose id is an int fails the comparison whatever its other fields are, and a new
  object is made.
\<close>

lemma store_user_string_id_new:
  assumes "ud_id data = SnowStr s" and "str_int api s = Some k"
    and "\<forall>a user. users_get st k = Some (a, user) \<longrightarrow> (\<exists>n. user_id user = PInt n)"
  shows "store_user api st data = Inr (store_new api st k data)"
  using assms
  by (auto simp: store_user_def user_matches_def split: option.splits)

text \<open>With an int id in the payload the second store of the same payload is a hit.\<close>

lemma store_user_int_id_reused:
  "store_user sample_api
     \<lparr>cs_heap = [\<lparr>user_id = PInt 20, user_name = PStr ''wumpus'',
                   user_discriminator = PStr ''0001'', user_public_flags = PNone\<rparr>],
      cs_users = [20 \<mapsto> 0], cs_members = Map.empty\<rparr>
     \<lparr>ud_id = SnowInt 20, ud_username = ''wumpus'', ud_discriminator = ''0001'',
      ud_public_flags = None\<rparr>
   = Inr (0, \<lparr>cs_heap = [\<lparr>user_id = PInt 20, user_name = PStr ''wumpus'',
                   user_discriminator = PStr ''0001'', user_public_flags = PNone\<rparr>],
              cs_users = [20 \<mapsto> 0], cs_members = Map.empty\<rparr>)"
  by (simp add: store_user_def sample_api_def users_get_def user_matches_def)

text \<open>
  C4. The claim: when the cache holds a user under the payload's id whose id, name,
  discriminator and public flags all match the payload, \<open>_store_user\<close> returns that
  stored instance. The payload with id \<open>"20"\<close> (a string, as the platform sends it) is
  stored on an empty cache: the new User, with id 20, is object 0 and is cached under
  20. The same payload is stored again: the cache finds object 0, all four fields are
  those of the payload, but \<open>20 == "20"\<close> is false, so the code makes a second
  object with the same fields, caches it in place of the first and returns it.
\<close>

theorem store_user_string_id_not_reused:
  "store_user sample_api
     \<lparr>cs_heap = [], cs_users = Map.empty, cs_members = Map.empty\<rparr>
     \<lparr>ud_id = SnowStr ''20'', ud_username = ''wumpus'', ud_discriminator = ''0001'',
      ud_public_flags = None\<rparr>
   = Inr (0, \<lparr>cs_heap = [\<lparr>user_id = PInt 20, user_name = PStr ''wumpus'',
                   user_discriminator = PStr ''0001'', user_public_flags = PNone\<rparr>],
              cs_users = [20 \<mapsto> 0], cs_members = Map.empty\<rparr>)
   \<and> store_user sample_api
     \<lparr>cs_heap = [\<lparr>user_id = PInt 20, user_name = PStr ''wumpus'',
                   user_discriminator = PStr ''0001'', user_public_flags = PNone\<rparr>],
      cs_users = [20 \<mapsto> 0], cs_members = Map.empty\<rparr>
     \<lparr>ud_id = SnowStr ''20'', ud_username = ''wumpus'', ud_discriminator = ''0001'',
      ud_public_flags = None\<rparr>
   = Inr (1, \<lparr>cs_heap = [\<lparr>user_id = PInt 20, user_name = PStr ''wumpus'',
                   user_discriminator = PStr ''0001'', user_public_flags = PNone\<rparr>,
                  \<lparr>user_id = PInt 20, user_name = PStr ''wumpus'',
                   user_discriminator = PStr ''0001'', user_public_flags = PNone\<rparr>],
              cs_users = [20 \<mapsto> 1], cs_members = Map.empty\<rparr>)"
  by (simp add: store_user_def store_new_def users_get_def user_matches_def sample_api_def
      decimal_int_def digit_of_def)

subsection \<open>Member cache\<close>

text \<open>
  A payload whose guild id is a string stores the member under a key that
  \<open>get_member\<close> never builds: every lookup answers as before the add.
\<close>

lemma member_add_string_guild_invisible:
  assumes "gm_guild_id data = Some (SnowStr s)"
    and "process_guild_member_add api st data = Inr (r, st')"
  shows "get_member api st' guild user = get_member api st guild user"
  using assms
  by (auto simp: process_guild_member_add_def get_member_def Let_def
      dest: store_user_members split: option.splits sum.splits)

text \<open>A payload whose guild id is an int is found again, under the member's id.\<close>

lemma member_add_int_guild_found:
  assumes "gm_guild_id data = Some (SnowInt g)"
    and "process_guild_member_add api st data = Inr ((p, member), st')"
  shows "get_member api st' (SnowInt g) (SnowInt (Member_id api member)) = Inr (Some member)"
    and "u \<noteq> Member_id api member \<Longrightarrow>
         get_member api st' (SnowInt g) (SnowInt u) = get_member api st (SnowInt g) (SnowInt u)"
  using assms
  by (auto simp: process_guild_member_add_def get_member_def Let_def
      dest: store_user_members split: option.splits sum.splits)

text \<open>
  C5. The claim: after a guild-member-add payload with guild id G and user id U,
  \<open>get_member(G, U)\<close> returns the member. \<open>_process_guild_member_add\<close> stores the
  member under the raw \<open>data['guild_id']\<close>, while \<open>get_member\<close> looks up
  \<open>int(guild)\<close>. For the payload with guild id \<open>"10"\<close> and user id \<open>"20"\<close>, as the
  platform sends them, the member is stored under \<open>("10", 20)\<close> and
  \<open>get_member\<close> returns None for \<open>(10, 20)\<close> and for \<open>("10", "20")\<close>.
\<close>

theorem member_add_string_guild_not_found:
  "(case process_guild_member_add sample_api
           \<lparr>cs_heap = [], cs_users = Map.empty, cs_members = Map.empty\<rparr>
           \<lparr>gm_guild_id = Some (SnowStr ''10''),
            gm_user = Some \<lparr>ud_id = SnowStr ''20'', ud_username = ''wumpus'',
                            ud_discriminator = ''0001'', ud_public_flags = None\<rparr>\<rparr> of
      Inl e \<Rightarrow> False
    | Inr ((previous, member), st') \<Rightarrow>
        previous = None \<and> member = (0, 20)
        \<and> cs_members st' (SnowStr ''10'', 20) = Some member
        \<and> get_member sample_api st' (SnowInt 10) (SnowInt 20) = Inr None
        \<and> get_member sample_api st' (SnowStr ''10'') (SnowStr ''20'') = Inr None)"
  by (simp add: process_guild_member_add_def store_user_def store_new_def users_get_def
      get_member_def sample_api_def decimal_int_def digit_of_def Let_def)

subsection \<open>Extension\<close>

text \<open>
  C7. The target has a listener mapping and a command mapping, the extension's event
  name is no key of the first and its command name no key of the second. Loading the
  extension with its one listener and one command adds the two entries; unloading it
  then gives back the listener mapping and the command mapping as they were (no key
  left, no empty container left), leaves the components alone and raises nothing.
\<close>

theorem load_unload_roundtrip:
  assumes "reg_listeners target = Some listeners"
    and "reg_commands target = Some commands"
    and "listeners event = None"
    and "commands cname = None"
    and "self = \<lparr>ext_listeners = [(event, [(initializer, [callback])])],
                 ext_commands = [(cname, cmd)], ext_components = [], ext_data = d0\<rparr>"
    and "load self target data = (target1, self1)"
    and "unload self1 target1 = (target2, self2, to_raise)"
  shows "reg_listeners target1 = Some (listeners(event \<mapsto> [initializer \<mapsto> [callback]]))
       \<and> reg_commands target1 = Some (commands(cname \<mapsto> cmd))
       \<and> reg_listeners target2 = Some listeners
       \<and> reg_commands target2 = Some commands
       \<and> reg_components target2 = reg_components target
       \<and> to_raise = []"
proof -
  have t1: "target1 = \<lparr>reg_listeners = Some (listeners(event \<mapsto> [initializer \<mapsto> [callback]])),
                       reg_commands = Some (commands(cname \<mapsto> cmd)),
                       reg_components = reg_components target\<rparr>"
    and s1: "self1 = self\<lparr>ext_data := Some data\<rparr>"
    using assms(1-6) by (auto simp: load_def Let_def option.map_ident)
  have l: "listeners(event := None) = listeners"
    using assms(3) by (simp add: fun_upd_idem)
  have c: "commands(cname := None) = commands"
    using assms(4) by (simp add: fun_upd_idem)
  have "unload self1 target1 =
          (\<lparr>reg_listeners = Some listeners, reg_commands = Some commands,
            reg_components = reg_components target\<rparr>, self1\<lparr>ext_data := None\<rparr>, [])"
    unfolding t1 s1 assms(5)
    by (cases "reg_components target") (simp_all add: unload_def l c)
  with assms(7) t1 show ?thesis by auto
qed

theorem load_unload_roundtrip_witness:
  "(case load \<lparr>ext_listeners = [(''ready'', [(0::nat, [3::nat])])],
               ext_commands = [(''ping'', 2::nat)], ext_components = ([] :: nat list),
               ext_data = (None :: nat option)\<rparr>
             \<lparr>reg_listeners = Some [''message'' \<mapsto> [0 \<mapsto> [5]]],
              reg_commands = Some [''help'' \<mapsto> 9], reg_components = Some [4]\<rparr> 7 of
      (target1, self1) \<Rightarrow>
        (case unload self1 target1 of
           (target2, self2, to_raise) \<Rightarrow>
             reg_listeners target1 = Some [''message'' \<mapsto> [0 \<mapsto> [5]], ''ready'' \<mapsto> [0 \<mapsto> [3]]]
             \<and> reg_commands target1 = Some [''help'' \<mapsto> 9, ''ping'' \<mapsto> 2]
             \<and> reg_listeners target2 = Some [''message'' \<mapsto> [0 \<mapsto> [5]]]
             \<and> reg_commands target2 = Some [''help'' \<mapsto> 9]
             \<and> to_raise = []))"
proof -
  obtain target1 self1 where ld:
    "load \<lparr>ext_listeners = [(''ready'', [(0::nat, [3::nat])])],
               ext_commands = [(''ping'', 2::nat)], ext_components = ([] :: nat list),
               ext_data = (None :: nat option)\<rparr>
             \<lparr>reg_listeners = Some [''message'' \<mapsto> [0 \<mapsto> [5]]],
              reg_commands = Some [''help'' \<mapsto> 9], reg_components = Some [4]\<rparr> (7::nat)
     = (target1, self1)"
    by (cases "load \<lparr>ext_listeners = [(''ready'', [(0::nat, [3::nat])])],
               ext_commands = [(''ping'', 2::nat)], ext_components = ([] :: nat list),
               ext_data = (None :: nat option)\<rparr>
             \<lparr>reg_listeners = Some [''message'' \<mapsto> [0 \<mapsto> [5::nat]]],
              reg_commands = Some [''help'' \<mapsto> 9], reg_components = Some [4::nat]\<rparr> (7::nat)")
  obtain target2 self2 to_raise where ul: "unload self1 target1 = (target2, self2, to_raise)"
    by (cases "unload self1 target1")
  show ?thesis
    using load_unload_roundtrip[OF _ _ _ _ refl ld ul,
        of "[''message'' \<mapsto> [0 \<mapsto> [5]]]" "[''help'' \<mapsto> 9]"]
    by (simp add: ld ul)
qed

text \<open>
  The same round trip on a target that already has listeners under the event name:
  its container there is not empty, and under the initializer it has no list, or a
  non-empty list without the callback.
\<close>

lemma roundtrip_shared_event:
  assumes "reg_listeners target = Some listeners"
    and "reg_commands target = Some commands"
    and "commands cname = None"
    and "listeners event = Some container"
    and "container \<noteq> Map.empty"
    and "container initializer = None
         \<or> (\<exists>registered. container initializer = Some registered \<and> registered \<noteq> []
               \<and> callback \<notin> set registered)"
    and "self = \<lparr>ext_listeners = [(event, [(initializer, [callback])])],
                 ext_commands = [(cname, cmd)], ext_components = [], ext_data = d0\<rparr>"
    and "load self target data = (target1, self1)"
    and "unload self1 target1 = (target2, self2, to_raise)"
  shows "reg_listeners target2 = Some listeners
       \<and> reg_commands target2 = Some commands
       \<and> reg_components target2 = reg_components target
       \<and> to_raise = []"
proof -
  have c: "commands(cname := None) = commands"
    using assms(3) by (simp add: fun_upd_idem)
  have l: "listeners(event \<mapsto> container) = listeners"
    using assms(4) by (simp add: fun_upd_idem)
  from assms(6) show ?thesis
  proof
    assume none: "container initializer = None"
    have k: "container(initializer := None) = container"
      using none by (simp add: fun_upd_idem)
    have t1: "target1 =
                \<lparr>reg_listeners = Some (listeners(event \<mapsto> container(initializer \<mapsto> [callback]))),
                 reg_commands = Some (commands(cname \<mapsto> cmd)),
                 reg_components = reg_components target\<rparr>"
      and s1: "self1 = self\<lparr>ext_data := Some data\<rparr>"
      using assms(1,2,4,7,8) none by (auto simp: load_def Let_def option.map_ident)
    have "unload self1 target1 =
          (\<lparr>reg_listeners = Some listeners, reg_commands = Some commands,
            reg_components = reg_components target\<rparr>, self1\<lparr>ext_data := None\<rparr>, [])"
      unfolding t1 s1 assms(7)
      using assms(5)
      by (cases "reg_components target") (simp_all add: unload_def l c k)
    with assms(9) show ?thesis by auto
  next
    assume "\<exists>registered. container initializer = Some registered \<and> registered \<noteq> []
               \<and> callback \<notin> set registered"
    then obtain registered where some: "container initializer = Some registered"
      and ne: "registered \<noteq> []" and fresh: "callback \<notin> set registered" by blast
    have k: "container(initializer \<mapsto> registered) = container"
      using some by (simp add: fun_upd_idem)
    have r: "remove1 callback (registered @ [callback]) = registered"
      using fresh by (simp add: remove1_append)
    have t1: "target1 =
                \<lparr>reg_listeners =
                   Some (listeners(event \<mapsto> container(initializer \<mapsto> registered @ [callback]))),
                 reg_commands = Some (commands(cname \<mapsto> cmd)),
                 reg_components = reg_components target\<rparr>"
      and s1: "self1 = self\<lparr>ext_data := Some data\<rparr>"
      using assms(1,2,4,7,8) some by (auto simp: load_def Let_def option.map_ident)
    have "unload self1 target1 =
          (\<lparr>reg_listeners = Some listeners, reg_commands = Some commands,
            reg_components = reg_components target\<rparr>, self1\<lparr>ext_data := None\<rparr>, [])"
      unfolding t1 s1 assms(7)
      using assms(5) ne
      by (cases "reg_components target") (simp_all add: unload_def l c k r)
    with assms(9) show ?thesis by auto
  qed
qed

subsection \<open>ASGI endpoint\<close>

lemma scan_headers_keeps_signature:
  "''x-signature-ed25519'' \<notin> fst ` set headers \<Longrightarrow>
   scan_headers headers signature timestamp = Some (s, t) \<Longrightarrow> s = signature"
  by (induction headers arbitrary: timestamp) (auto split: if_splits)

lemma scan_headers_keeps_timestamp:
  "''x-signature-timestamp'' \<notin> fst ` set headers \<Longrightarrow>
   scan_headers headers signature timestamp = Some (s, t) \<Longrightarrow> t = timestamp"
  by (induction headers arbitrary: signature) (auto split: if_splits)

lemma authenticate_missing_header:
  assumes "''x-signature-ed25519'' \<notin> fst ` set (sc_headers scope)
           \<or> ''x-signature-timestamp'' \<notin> fst ` set (sc_headers scope)"
  shows "authenticate env scope receive = Some (Inr (False, None))"
proof (cases "scan_headers (sc_headers scope) None None")
  case None
  then show ?thesis by (simp add: authenticate_def)
next
  case (Some found)
  obtain s t where st: "found = (s, t)" by (cases found)
  from assms Some st have "s = None \<or> t = None"
    using scan_headers_keeps_signature scan_headers_keeps_timestamp by blast
  then show ?thesis
    using Some st by (auto simp: authenticate_def split: option.splits)
qed

text \<open>
  C8. For an HTTP request: when its path is not the configured path, the endpoint
  answers 404 Not Found whatever the method is; when the path is the configured one,
  the method is POST and no header is named x-signature-ed25519 or none is named
  x-signature-timestamp, it answers 401 Unauthorized. In both cases these two messages
  are all that is sent, and nothing is read from the request.
\<close>

theorem asgi_gating_order:
  "(sc_type scope = ''http'' \<and> sc_path scope \<noteq> app_path self \<longrightarrow>
      asgi_call self env scope receive =
        Returned [ResponseStart 404 [(''content-type'', ''text/plain'')],
                  ResponseBody ''Not Found''])
   \<and> (sc_type scope = ''http'' \<and> sc_path scope = app_path self \<and> sc_method scope = ''POST''
        \<and> (''x-signature-ed25519'' \<notin> fst ` set (sc_headers scope)
             \<or> ''x-signature-timestamp'' \<notin> fst ` set (sc_headers scope)) \<longrightarrow>
      asgi_call self env scope receive =
        Returned [ResponseStart 401 [(''content-type'', ''text/plain'')],
                  ResponseBody ''Unauthorized''])"
proof (intro conjI impI)
  assume "sc_type scope = ''http'' \<and> sc_path scope \<noteq> app_path self"
  then show "asgi_call self env scope receive =
        Returned [ResponseStart 404 [(''content-type'', ''text/plain'')],
                  ResponseBody ''Not Found'']"
    by (simp add: asgi_call_def verify_request_target_def plain_response_def)
next
  assume a: "sc_type scope = ''http'' \<and> sc_path scope = app_path self
        \<and> sc_method scope = ''POST''
        \<and> (''x-signature-ed25519'' \<notin> fst ` set (sc_headers scope)
             \<or> ''x-signature-timestamp'' \<notin> fst ` set (sc_headers scope))"
  then have "authenticate env scope receive = Some (Inr (False, None))"
    by (intro authenticate_missing_header) simp
  with a show "asgi_call self env scope receive =
        Returned [ResponseStart 401 [(''content-type'', ''text/plain'')],
                  ResponseBody ''Unauthorized'']"
    by (simp add: asgi_call_def verify_request_target_def plain_response_def)
qed

theorem asgi_gating_order_witness:
  "asgi_call \<lparr>app_method = ''POST'', app_path = ''/''\<rparr>
     \<lparr>authenticate_request = (\<lambda>signature timestamp body. True), decode_utf8 = Some,
      json_loads = (\<lambda>body. None), dispatch = (\<lambda>data. []), aenter_ok = True, aexit_ok = True\<rparr>
     \<lparr>sc_type = ''http'', sc_path = ''/other'', sc_method = ''GET'', sc_headers = []\<rparr> []
     = Returned [ResponseStart 404 [(''content-type'', ''text/plain'')],
                 ResponseBody ''Not Found'']
   \<and> asgi_call \<lparr>app_method = ''POST'', app_path = ''/''\<rparr>
     \<lparr>authenticate_request = (\<lambda>signature timestamp body. True), decode_utf8 = Some,
      json_loads = (\<lambda>body. None), dispatch = (\<lambda>data. []), aenter_ok = True, aexit_ok = True\<rparr>
     \<lparr>sc_type = ''http'', sc_path = ''/'', sc_method = ''POST'',
      sc_headers = [(''content-type'', ''application/json''),
                    (''x-signature-timestamp'', ''1'')]\<rparr> []
     = Returned [ResponseStart 401 [(''content-type'', ''text/plain'')],
                 ResponseBody ''Unauthorized'']"
  using asgi_gating_order
    [where self = "\<lparr>app_method = ''POST'', app_path = ''/''\<rparr>" and receive = "[]"
       and env = "\<lparr>authenticate_request = (\<lambda>signature timestamp body. True),
                   decode_utf8 = Some, json_loads = (\<lambda>body. None), dispatch = (\<lambda>data. []),
                   aenter_ok = True, aexit_ok = True\<rparr>"
       and scope = "\<lparr>sc_type = ''http'', sc_path = ''/other'', sc_method = ''GET'',
                     sc_headers = []\<rparr>"]
    asgi_gating_order
    [where self = "\<lparr>app_method = ''POST'', app_path = ''/''\<rparr>" and receive = "[]"
       and env = "\<lparr>authenticate_request = (\<lambda>signature timestamp body. True),
                   decode_utf8 = Some, json_loads = (\<lambda>body. None), dispatch = (\<lambda>data. []),
                   aenter_ok = True, aexit_ok = True\<rparr>"
       and scope = "\<lparr>sc_type = ''http'', sc_path = ''/'', sc_method = ''POST'',
                     sc_headers = [(''content-type'', ''application/json''),
                                   (''x-signature-timestamp'', ''1'')]\<rparr>"]
  by simp

end
